theory Spec2Isabelle
  imports Main
begin

section \<open>The CloudStackCluster reconciler (controllers/cloudstackcluster\_controller.go)\<close>

subsection \<open>Results of a reconciliation stage\<close>

text \<open>
  Every stage of the Go source returns a pair \<^verbatim>\<open>(ctrl.Result, error)\<close>. The source
  builds such a pair in three ways only, and the model has one constructor for each:
  \<^item> \<^verbatim>\<open>return ctrl.Result{}, nil\<close> is \<open>Continue\<close>;
  \<^item> \<^verbatim>\<open>return ctrl.Result{}, err\<close> is \<open>Error err\<close>;
  \<^item> \<^verbatim>\<open>return r.RequeueWithMessage(msg)\<close> is \<open>Requeue msg\<close>.
  An error is represented by its message.
\<close>

type_synonym error = string

datatype result = Continue | Requeue string | Error error

text \<open>
  Modelled from the spec: \<^verbatim>\<open>RequeueWithMessage\<close> belongs to the base runner
  (controllers/utils), which is not among the sources. The spec (4.1, 4.3) describes
  its outcome as a requeue, not an error, that carries the human-readable reason.
\<close>

definition RequeueWithMessage :: "string \<Rightarrow> result" where
  "RequeueWithMessage msg = Requeue msg"

text \<open>
  Modelled from the spec: \<^verbatim>\<open>ShouldReturn\<close> belongs to the base runner as well. The
  spec (4.1) says that a requeue or an error stops the sequence, and that only
  \<open>continue\<close> proceeds.
\<close>

fun ShouldReturn :: "result \<Rightarrow> bool" where
  "ShouldReturn Continue = False"
| "ShouldReturn (Requeue msg) = True"
| "ShouldReturn (Error err) = True"

text \<open>
  Modelled from the spec: \<^verbatim>\<open>RunReconciliationStages\<close> belongs to the base runner.
  The spec (4.1) says: the steps run in a fixed order; after \<open>continue\<close> the next step
  runs; a requeue or an error stops the pipeline, which does not advance further.
\<close>

fun RunReconciliationStages :: "('r \<Rightarrow> result \<times> 'r) list \<Rightarrow> 'r \<Rightarrow> result \<times> 'r" where
  "RunReconciliationStages [] r = (Continue, r)"
| "RunReconciliationStages (fn # fns) r =
     (case fn r of
        (Continue, r') \<Rightarrow> RunReconciliationStages fns r'
      | (res, r') \<Rightarrow> (res, r'))"

subsection \<open>Library functions the source calls\<close>

text \<open>
  Go's \<^verbatim>\<open>strings.HasSuffix(s, suffix)\<close> is
  \<^verbatim>\<open>len(s) >= len(suffix) && s[len(s)-len(suffix):] == suffix\<close>. A Go string is a
  sequence of bytes, as \<open>string\<close> is here.
\<close>

definition HasSuffix :: "string \<Rightarrow> string \<Rightarrow> bool" where
  "HasSuffix s suffix =
     (length suffix \<le> length s \<and> drop (length s - length suffix) s = suffix)"

text \<open>
  \<^verbatim>\<open>fmt.Sprintf("%d", n)\<close> for the result of \<^verbatim>\<open>len\<close>, which is never negative:
  the decimal digits of \<open>n\<close>, most significant first, with no padding.
\<close>

definition digit :: "nat \<Rightarrow> char" where
  "digit d = ''0123456789'' ! d"

fun fmt_d :: "nat \<Rightarrow> string" where
  "fmt_d n = (if n < 10 then [digit n] else fmt_d (n div 10) @ [digit (n mod 10)])"

declare fmt_d.simps [simp del]

subsection \<open>The objects\<close>

text \<open>
  The type declarations of the API packages are not among the sources. Each record has
  the fields the controller reads or writes; what else an object carries is one opaque
  field of type \<open>'o\<close>, which no function of the controller looks into.
\<close>

record 'o infrav1_CloudStackFailureDomainSpec =
  fdSpec_Name :: string
  fdSpec_Other :: 'o

text \<open>A dependent resource, with \<^verbatim>\<open>fd.Namespace\<close>, \<^verbatim>\<open>fd.Name\<close> and \<^verbatim>\<open>fd.Status.Ready\<close>.\<close>

record infrav1_CloudStackFailureDomain =
  fd_Namespace :: string
  fd_Name :: string
  fd_Status_Ready :: bool

text \<open>
  Cluster API's \<^verbatim>\<open>clusterv1.FailureDomainSpec\<close>; the source builds it as
  \<^verbatim>\<open>FailureDomainSpec{ControlPlane: true}\<close>, which leaves \<open>Attributes\<close> empty.
\<close>

record clusterv1_FailureDomainSpec =
  ControlPlane :: bool
  Attributes :: "(string \<times> string) list"

record 'o metav1_ObjectMeta =
  ResourceVersion :: string
  Finalizers :: "string list"
  ManagedFields :: "'o list"
  Meta_Other :: 'o

record 'o infrav1_CloudStackClusterSpec =
  Spec_FailureDomains :: "'o infrav1_CloudStackFailureDomainSpec list"
  Spec_Other :: 'o

record infrav1_CloudStackClusterStatus =
  Status_FailureDomains :: "string \<rightharpoonup> clusterv1_FailureDomainSpec"
  Status_Ready :: bool

text \<open>The Subject.\<close>

record 'o infrav1_CloudStackCluster =
  ObjectMeta :: "'o metav1_ObjectMeta"
  Spec :: "'o infrav1_CloudStackClusterSpec"
  Status :: infrav1_CloudStackClusterStatus

text \<open>The owner object, a Cluster API \<^verbatim>\<open>Cluster\<close>.\<close>

record 'o clusterv1_Cluster =
  Cluster_Name :: string
  Cluster_Spec_Paused :: bool
  Cluster_Other :: 'o

text \<open>The zero value \<^verbatim>\<open>infrav1.CloudStackClusterStatus{}\<close>.\<close>

definition CloudStackClusterStatus_zero :: infrav1_CloudStackClusterStatus where
  "CloudStackClusterStatus_zero =
     \<lparr>Status_FailureDomains = Map.empty, Status_Ready = False\<rparr>"

subsection \<open>The finalizer helpers of controller-runtime\<close>

text \<open>
  \<^verbatim>\<open>controllerutil.AddFinalizer\<close> appends the finalizer unless the list has it already;
  \<^verbatim>\<open>controllerutil.RemoveFinalizer\<close> removes every occurrence. Neither returns an error.
\<close>

definition AddFinalizer ::
  "'o infrav1_CloudStackCluster \<Rightarrow> string \<Rightarrow> 'o infrav1_CloudStackCluster" where
  "AddFinalizer obj finalizer =
     (if finalizer \<in> set (Finalizers (ObjectMeta obj)) then obj
      else obj\<lparr>ObjectMeta :=
        (ObjectMeta obj)\<lparr>Finalizers := Finalizers (ObjectMeta obj) @ [finalizer]\<rparr>\<rparr>)"

definition RemoveFinalizer ::
  "'o infrav1_CloudStackCluster \<Rightarrow> string \<Rightarrow> 'o infrav1_CloudStackCluster" where
  "RemoveFinalizer obj finalizer =
     obj\<lparr>ObjectMeta :=
       (ObjectMeta obj)\<lparr>Finalizers := filter (\<lambda>f. f \<noteq> finalizer) (Finalizers (ObjectMeta obj))\<rparr>\<rparr>"

subsection \<open>The runner and its collaborators\<close>

text \<open>
  The working state of one invocation: the Subject, the items of \<^verbatim>\<open>r.FailureDomains\<close>,
  the owner \<^verbatim>\<open>r.CAPICluster\<close> (set by the base runner before the stages run), and the
  state of the Resource Store behind \<^verbatim>\<open>r.K8sClient\<close>, of any type \<open>'s\<close>.
\<close>

record ('o, 's) CloudStackClusterReconciliationRunner =
  ReconciliationSubject :: "'o infrav1_CloudStackCluster"
  FailureDomains :: "infrav1_CloudStackFailureDomain list"
  CAPICluster :: "'o clusterv1_Cluster"
  K8sClient :: 's

text \<open>
  What the source file uses and the sources do not contain is a parameter of the model:
  the constant \<^verbatim>\<open>infrav1.ClusterFinalizer\<close>; the base runner's stages
  \<^verbatim>\<open>CreateFailureDomains\<close> (it may read the runner and changes the store only) and
  \<^verbatim>\<open>GetFailureDomains\<close> (it may read the runner and fills \<^verbatim>\<open>r.FailureDomains\<close> only);
  and the store's answer to \<^verbatim>\<open>K8sClient.Delete\<close>, \<open>None\<close> for \<^verbatim>\<open>nil\<close>.
\<close>

record ('o, 's) Collaborators =
  ClusterFinalizer :: string
  CreateFailureDomains_op ::
    "'o infrav1_CloudStackFailureDomainSpec list \<Rightarrow>
     ('o, 's) CloudStackClusterReconciliationRunner \<Rightarrow> result \<times> 's"
  GetFailureDomains_op ::
    "('o, 's) CloudStackClusterReconciliationRunner \<Rightarrow>
     result \<times> infrav1_CloudStackFailureDomain list"
  Delete_op :: "'s \<Rightarrow> infrav1_CloudStackFailureDomain \<Rightarrow> error option \<times> 's"

definition CreateFailureDomains ::
  "('o, 's) Collaborators \<Rightarrow> 'o infrav1_CloudStackFailureDomainSpec list \<Rightarrow>
   ('o, 's) CloudStackClusterReconciliationRunner \<Rightarrow>
   result \<times> ('o, 's) CloudStackClusterReconciliationRunner" where
  "CreateFailureDomains env fdSpecs r =
     (case CreateFailureDomains_op env fdSpecs r of
        (res, store) \<Rightarrow> (res, r\<lparr>K8sClient := store\<rparr>))"

definition GetFailureDomains ::
  "('o, 's) Collaborators \<Rightarrow> ('o, 's) CloudStackClusterReconciliationRunner \<Rightarrow>
   result \<times> ('o, 's) CloudStackClusterReconciliationRunner" where
  "GetFailureDomains env r =
     (case GetFailureDomains_op env r of
        (res, items) \<Rightarrow> (res, r\<lparr>FailureDomains := items\<rparr>))"

subsection \<open>SetReady (lines 98--102)\<close>

definition SetReady ::
  "('o, 's) Collaborators \<Rightarrow> ('o, 's) CloudStackClusterReconciliationRunner \<Rightarrow>
   result \<times> ('o, 's) CloudStackClusterReconciliationRunner" where
  "SetReady env r =
     (let subject = AddFinalizer (ReconciliationSubject r) (ClusterFinalizer env);
          subject = subject\<lparr>Status := (Status subject)\<lparr>Status_Ready := True\<rparr>\<rparr>
      in (Continue, r\<lparr>ReconciliationSubject := subject\<rparr>))"

subsection \<open>VerifyFailureDomainCRDs (lines 105--117)\<close>

text \<open>The loop of lines 111--115 over the fetched items.\<close>

fun VerifyFailureDomainCRDs_loop :: "infrav1_CloudStackFailureDomain list \<Rightarrow> result" where
  "VerifyFailureDomainCRDs_loop [] = Continue"
| "VerifyFailureDomainCRDs_loop (fd # fds) =
     (if \<not> fd_Status_Ready fd
      then RequeueWithMessage
        (''FailureDomains '' @ fd_Namespace fd @ ''/'' @ fd_Name fd @ '' not ready, requeueing.'')
      else VerifyFailureDomainCRDs_loop fds)"

definition VerifyFailureDomainCRDs ::
  "('o, 's) CloudStackClusterReconciliationRunner \<Rightarrow>
   result \<times> ('o, 's) CloudStackClusterReconciliationRunner" where
  "VerifyFailureDomainCRDs r =
     (let expected = length (Spec_FailureDomains (Spec (ReconciliationSubject r)));
          actual = length (FailureDomains r)
      in if expected \<noteq> actual
         then (RequeueWithMessage
                (''Expected '' @ fmt_d expected @ '' FailureDomains, but found '' @ fmt_d actual), r)
         else (VerifyFailureDomainCRDs_loop (FailureDomains r), r))"

subsection \<open>SetFailureDomainsStatusMap (lines 120--129)\<close>

text \<open>
  Lines 123--125, on the loop variable \<^verbatim>\<open>fdSpec\<close>. In Go the variable of a
  \<^verbatim>\<open>for _, fdSpec := range\<close> loop over a slice of structs is a copy of the element, so
  the assignment to \<^verbatim>\<open>fdSpec.Name\<close> changes the copy; the function returns the copy.
\<close>

definition addClusterNameSuffix ::
  "string \<Rightarrow> 'o infrav1_CloudStackFailureDomainSpec \<Rightarrow> 'o infrav1_CloudStackFailureDomainSpec" where
  "addClusterNameSuffix capiClusterName fdSpec =
     (if \<not> HasSuffix (fdSpec_Name fdSpec) (''-'' @ capiClusterName)
      then fdSpec\<lparr>fdSpec_Name := fdSpec_Name fdSpec @ ''-'' @ capiClusterName\<rparr>
      else fdSpec)"

text \<open>
  The loop of lines 122--127. It runs over the elements the slice had when the loop
  began, and each iteration writes one entry of the Subject's status map (line 126).
\<close>

fun SetFailureDomainsStatusMap_loop ::
  "'o infrav1_CloudStackFailureDomainSpec list \<Rightarrow>
   ('o, 's) CloudStackClusterReconciliationRunner \<Rightarrow>
   ('o, 's) CloudStackClusterReconciliationRunner" where
  "SetFailureDomainsStatusMap_loop [] r = r"
| "SetFailureDomainsStatusMap_loop (elem # elems) r =
     (let fdSpec = addClusterNameSuffix (Cluster_Name (CAPICluster r)) elem;
          subject = ReconciliationSubject r;
          status = Status subject;
          entries = (Status_FailureDomains status)
            (fdSpec_Name fdSpec \<mapsto> \<lparr>ControlPlane = True, Attributes = []\<rparr>)
      in SetFailureDomainsStatusMap_loop elems
           (r\<lparr>ReconciliationSubject :=
               subject\<lparr>Status := status\<lparr>Status_FailureDomains := entries\<rparr>\<rparr>\<rparr>))"

definition SetFailureDomainsStatusMap ::
  "('o, 's) CloudStackClusterReconciliationRunner \<Rightarrow>
   result \<times> ('o, 's) CloudStackClusterReconciliationRunner" where
  "SetFailureDomainsStatusMap r =
     (let subject = ReconciliationSubject r;
          r1 = r\<lparr>ReconciliationSubject :=
                 subject\<lparr>Status := (Status subject)\<lparr>Status_FailureDomains := Map.empty\<rparr>\<rparr>\<rparr>
      in (Continue,
          SetFailureDomainsStatusMap_loop
            (Spec_FailureDomains (Spec (ReconciliationSubject r1))) r1))"

subsection \<open>Reconcile (lines 88--95)\<close>

text \<open>
  Go evaluates the arguments of \<^verbatim>\<open>RunReconciliationStages\<close> before the first stage
  runs, so \<^verbatim>\<open>CreateFailureDomains\<close> receives the declared list as it is on entry.
\<close>

definition Reconcile ::
  "('o, 's) Collaborators \<Rightarrow> ('o, 's) CloudStackClusterReconciliationRunner \<Rightarrow>
   result \<times> ('o, 's) CloudStackClusterReconciliationRunner" where
  "Reconcile env r =
     RunReconciliationStages
       [SetFailureDomainsStatusMap,
        CreateFailureDomains env (Spec_FailureDomains (Spec (ReconciliationSubject r))),
        GetFailureDomains env,
        VerifyFailureDomainCRDs,
        SetReady env] r"

subsection \<open>ReconcileDelete (lines 132--147)\<close>

text \<open>
  The loop of lines 138--142: one \<^verbatim>\<open>K8sClient.Delete\<close> per fetched item, in order; the
  first error ends the loop. The result is the error, if any, and the store after the
  requests that were issued.
\<close>

fun ReconcileDelete_loop ::
  "('o, 's) Collaborators \<Rightarrow> infrav1_CloudStackFailureDomain list \<Rightarrow> 's \<Rightarrow> error option \<times> 's" where
  "ReconcileDelete_loop env [] store = (None, store)"
| "ReconcileDelete_loop env (fd # fds) store =
     (case Delete_op env store fd of
        (Some err, store') \<Rightarrow> (Some err, store')
      | (None, store') \<Rightarrow> ReconcileDelete_loop env fds store')"

text \<open>The log line of line 133 is not modelled.\<close>

definition ReconcileDelete ::
  "('o, 's) Collaborators \<Rightarrow> ('o, 's) CloudStackClusterReconciliationRunner \<Rightarrow>
   result \<times> ('o, 's) CloudStackClusterReconciliationRunner" where
  "ReconcileDelete env r =
     (case GetFailureDomains env r of
        (res, r1) \<Rightarrow>
          if ShouldReturn res then (res, r1)
          else if length (FailureDomains r1) > 0 then
            (case ReconcileDelete_loop env (FailureDomains r1) (K8sClient r1) of
               (Some err, store) \<Rightarrow> (Error err, r1\<lparr>K8sClient := store\<rparr>)
             | (None, store) \<Rightarrow>
                 (RequeueWithMessage ''Child FailureDomains still present, requeueing.'',
                  r1\<lparr>K8sClient := store\<rparr>))
          else (Continue,
                r1\<lparr>ReconciliationSubject :=
                     RemoveFinalizer (ReconciliationSubject r1) (ClusterFinalizer env)\<rparr>))"

subsection \<open>The event filters of SetupWithManager (lines 153--191)\<close>

record 'a UpdateEvent =
  ObjectOld :: 'a
  ObjectNew :: 'a

record 'a CreateEvent =
  CreateEvent_Object :: 'a

record 'a DeleteEvent =
  DeleteEvent_Object :: 'a



text \<open>The predicates of the watch on the owner (lines 185--191).\<close>

definition Cluster_UpdateFunc :: "'o clusterv1_Cluster UpdateEvent \<Rightarrow> bool" where
  "Cluster_UpdateFunc e =
     (let oldCluster = ObjectOld e;
          newCluster = ObjectNew e
      in Cluster_Spec_Paused oldCluster \<and> \<not> Cluster_Spec_Paused newCluster)"

definition Cluster_DeleteFunc :: "'o clusterv1_Cluster DeleteEvent \<Rightarrow> bool" where
  "Cluster_DeleteFunc e = False"

definition Cluster_CreateFunc :: "'o clusterv1_Cluster CreateEvent \<Rightarrow> bool" where
  "Cluster_CreateFunc e = False"

subsection \<open>The declared and the realized set, in the spec's words\<close>

text \<open>
  Following the spec's words (section 3, the invariant of the Subject): the realized
  dependent set exactly matches the declared set when the names of the fetched
  dependents are the fully-qualified names of the declared FailureDomainSpecs
  (section 4.3, Normalize). This predicate is the spec's; the source has no such check.
\<close>

definition spec_declaredNames :: "string \<Rightarrow> 'o infrav1_CloudStackFailureDomainSpec list \<Rightarrow> string list" where
  "spec_declaredNames capiClusterName fdSpecs =
     map (\<lambda>fdSpec. fdSpec_Name (addClusterNameSuffix capiClusterName fdSpec)) fdSpecs"


subsection \<open>An in-memory Resource Store for concrete runs\<close>

text \<open>
  Modelled from the spec: the Resource Store is external to the controller and the base
  runner's stages are not among the sources. For runs on concrete inputs the store is
  the list of the dependents it holds, with a log of the delete requests it received.
  \<^item> EnsureExist (4.3): for each normalized spec, the dependent is created if absent,
    not yet ready; a create against an existing name is a no-op, not an error.
  \<^item> FetchAll (4.3): lists the dependents of the Subject.
  \<^item> Delete (6): removes the object; a store that refuses the names in \<open>refused\<close>
    answers those requests with an error and keeps the object.
  The finalizer token is an example value.
\<close>

record MemStore =
  objects :: "infrav1_CloudStackFailureDomain list"
  deleteRequests :: "infrav1_CloudStackFailureDomain list"

text \<open>
  Modelled from the spec: EnsureExist (4.3) on the list of stored dependents. The base
  runner's \<^verbatim>\<open>CreateFailureDomains\<close> is not among the sources.
\<close>

fun EnsureExist ::
  "string \<Rightarrow> 'o infrav1_CloudStackFailureDomainSpec list \<Rightarrow>
   infrav1_CloudStackFailureDomain list \<Rightarrow> infrav1_CloudStackFailureDomain list" where
  "EnsureExist capiClusterName [] stored = stored"
| "EnsureExist capiClusterName (fdSpec # fdSpecs) stored =
     (let name = fdSpec_Name (addClusterNameSuffix capiClusterName fdSpec)
      in EnsureExist capiClusterName fdSpecs
           (if name \<in> set (map fd_Name stored) then stored
            else stored @ [\<lparr>fd_Namespace = ''default'', fd_Name = name, fd_Status_Ready = False\<rparr>]))"

text \<open>
  Modelled from the spec: the collaborators on the in-memory store. The create stage is
  EnsureExist, the fetch stage lists the stored dependents (FetchAll, 4.3), and a delete
  request (6) is logged and, unless the name is refused, removes the object.
\<close>

definition memStore :: "string list \<Rightarrow> (unit, MemStore) Collaborators" where
  "memStore refused =
     \<lparr>ClusterFinalizer = ''capc.cluster.x-k8s.io'',
      CreateFailureDomains_op = (\<lambda>fdSpecs r.
        (Continue,
         (K8sClient r)\<lparr>objects :=
           EnsureExist (Cluster_Name (CAPICluster r)) fdSpecs (objects (K8sClient r))\<rparr>)),
      GetFailureDomains_op = (\<lambda>r. (Continue, objects (K8sClient r))),
      Delete_op = (\<lambda>store fd.
        if fd_Name fd \<in> set refused
        then (Some ''delete refused'', store\<lparr>deleteRequests := deleteRequests store @ [fd]\<rparr>)
        else (None, store\<lparr>objects := filter (\<lambda>x. x \<noteq> fd) (objects store),
                          deleteRequests := deleteRequests store @ [fd]\<rparr>))\<rparr>"

text \<open>Concrete objects: the owner \<open>demo\<close>, a Subject declaring the given names, a runner.\<close>

definition demoCluster :: "bool \<Rightarrow> unit clusterv1_Cluster" where
  "demoCluster paused =
     \<lparr>Cluster_Name = ''demo'', Cluster_Spec_Paused = paused, Cluster_Other = ()\<rparr>"

definition demoSubject :: "string list \<Rightarrow> string list \<Rightarrow> unit infrav1_CloudStackCluster" where
  "demoSubject finalizers names =
     \<lparr>ObjectMeta =
        \<lparr>ResourceVersion = ''1'', Finalizers = finalizers, ManagedFields = [], Meta_Other = ()\<rparr>,
      Spec =
        \<lparr>Spec_FailureDomains = map (\<lambda>n. \<lparr>fdSpec_Name = n, fdSpec_Other = ()\<rparr>) names,
         Spec_Other = ()\<rparr>,
      Status = CloudStackClusterStatus_zero\<rparr>"

definition demoFailureDomain :: "string \<Rightarrow> bool \<Rightarrow> infrav1_CloudStackFailureDomain" where
  "demoFailureDomain name ready =
     \<lparr>fd_Namespace = ''default'', fd_Name = name, fd_Status_Ready = ready\<rparr>"

definition demoRunner ::
  "unit infrav1_CloudStackCluster \<Rightarrow> infrav1_CloudStackFailureDomain list \<Rightarrow>
   infrav1_CloudStackFailureDomain list \<Rightarrow> (unit, MemStore) CloudStackClusterReconciliationRunner" where
  "demoRunner subject items stored =
     \<lparr>ReconciliationSubject = subject, FailureDomains = items,
      CAPICluster = demoCluster False,
      K8sClient = \<lparr>objects = stored, deleteRequests = []\<rparr>\<rparr>"

text \<open>
  Concrete runners. \<open>readyRunner\<close>: one declared failure domain whose dependent the store
  holds, ready. \<open>freshRunner\<close>: the same Subject on an empty store. \<open>otherNameRunner\<close>: at
  the verification stage, one declared failure domain and one fetched dependent of
  another name. \<open>duplicateNamesRunner\<close>: two declared names with the same fully-qualified
  name, on a store that holds that dependent and one more. \<open>deletingRunner\<close>: a Subject
  that carries the finalizer, on the given store.
\<close>

definition readyRunner :: "(unit, MemStore) CloudStackClusterReconciliationRunner" where
  "readyRunner = demoRunner (demoSubject [] [''pool1'']) [] [demoFailureDomain ''pool1-demo'' True]"

definition freshRunner :: "(unit, MemStore) CloudStackClusterReconciliationRunner" where
  "freshRunner = demoRunner (demoSubject [] [''pool1'']) [] []"

definition otherNameRunner :: "(unit, MemStore) CloudStackClusterReconciliationRunner" where
  "otherNameRunner =
     demoRunner (demoSubject [] [''pool1'']) [demoFailureDomain ''other-demo'' True] []"

definition duplicateNamesRunner :: "(unit, MemStore) CloudStackClusterReconciliationRunner" where
  "duplicateNamesRunner =
     demoRunner (demoSubject [] [''pool1'', ''pool1-demo'']) []
       [demoFailureDomain ''pool1-demo'' True, demoFailureDomain ''other-demo'' True]"

definition deletingRunner ::
  "infrav1_CloudStackFailureDomain list \<Rightarrow> (unit, MemStore) CloudStackClusterReconciliationRunner" where
  "deletingRunner stored =
     demoRunner (demoSubject [''other.finalizer'', ''capc.cluster.x-k8s.io''] [''pool1'']) [] stored"

section \<open>Auxiliary facts\<close>

lemmas demo_defs = demoRunner_def demoSubject_def demoFailureDomain_def demoCluster_def
  CloudStackClusterStatus_zero_def memStore_def readyRunner_def freshRunner_def
  otherNameRunner_def duplicateNamesRunner_def deletingRunner_def

lemmas stage_defs = Reconcile_def SetFailureDomainsStatusMap_def CreateFailureDomains_def
  GetFailureDomains_def VerifyFailureDomainCRDs_def SetReady_def AddFinalizer_def
  RemoveFinalizer_def ReconcileDelete_def RequeueWithMessage_def addClusterNameSuffix_def
  HasSuffix_def Let_def

subsection \<open>Strings\<close>

lemma HasSuffix_iff: "HasSuffix s t \<longleftrightarrow> (\<exists>p. s = p @ t)"
proof
  assume h: "HasSuffix s t"
  then have "s = take (length s - length t) s @ t"
    by (metis HasSuffix_def append_take_drop_id)
  then show "\<exists>p. s = p @ t" ..
next
  assume "\<exists>p. s = p @ t"
  then show "HasSuffix s t" by (auto simp: HasSuffix_def)
qed

lemma addClusterNameSuffix_Name:
  "fdSpec_Name (addClusterNameSuffix c fd) =
     (if HasSuffix (fdSpec_Name fd) (''-'' @ c) then fdSpec_Name fd
      else fdSpec_Name fd @ ''-'' @ c)"
  by (simp add: addClusterNameSuffix_def)

lemma addClusterNameSuffix_HasSuffix:
  "HasSuffix (fdSpec_Name (addClusterNameSuffix c fd)) (''-'' @ c)"
  unfolding addClusterNameSuffix_Name by (simp add: HasSuffix_iff)

lemma fmt_d_examples:
  "fmt_d 0 = ''0'' \<and> fmt_d 7 = ''7'' \<and> fmt_d 10 = ''10'' \<and> fmt_d 2048 = ''2048''"
  by (simp add: fmt_d.simps digit_def)

subsection \<open>The verification stage\<close>





lemma VerifyFailureDomainCRDs_snd: "snd (VerifyFailureDomainCRDs r) = r"
  by (simp add: VerifyFailureDomainCRDs_def Let_def)



subsection \<open>The status projection\<close>

lemma SetFailureDomainsStatusMap_loop_eq:
  "SetFailureDomainsStatusMap_loop elems r =
     r\<lparr>ReconciliationSubject :=
         (ReconciliationSubject r)\<lparr>Status :=
           (Status (ReconciliationSubject r))\<lparr>Status_FailureDomains :=
             foldl (\<lambda>m elem. m(fdSpec_Name (addClusterNameSuffix (Cluster_Name (CAPICluster r)) elem)
                                  \<mapsto> \<lparr>ControlPlane = True, Attributes = []\<rparr>))
               (Status_FailureDomains (Status (ReconciliationSubject r))) elems\<rparr>\<rparr>\<rparr>"
  by (induction elems arbitrary: r) (simp_all add: Let_def)

lemma foldl_upd_apply:
  "foldl (\<lambda>m x. m(f x \<mapsto> v)) m0 xs k = (if k \<in> f ` set xs then Some v else m0 k)"
  by (induction xs arbitrary: m0) auto

lemma SetFailureDomainsStatusMap_eq:
  "SetFailureDomainsStatusMap r =
     (Continue,
      r\<lparr>ReconciliationSubject :=
         (ReconciliationSubject r)\<lparr>Status :=
           (Status (ReconciliationSubject r))\<lparr>Status_FailureDomains :=
             (\<lambda>k. if k \<in> set (spec_declaredNames (Cluster_Name (CAPICluster r))
                               (Spec_FailureDomains (Spec (ReconciliationSubject r))))
                  then Some \<lparr>ControlPlane = True, Attributes = []\<rparr> else None)\<rparr>\<rparr>\<rparr>)"
proof -
  have "foldl (\<lambda>m elem. m(fdSpec_Name (addClusterNameSuffix c elem)
                                  \<mapsto> \<lparr>ControlPlane = True, Attributes = []\<rparr>)) Map.empty elems
        = (\<lambda>k. if k \<in> set (spec_declaredNames c elems)
                  then Some \<lparr>ControlPlane = True, Attributes = []\<rparr> else None)" for c and elems :: "'a infrav1_CloudStackFailureDomainSpec list"
    by (rule ext) (simp add: foldl_upd_apply [where f = "\<lambda>elem. fdSpec_Name (addClusterNameSuffix c elem)"] spec_declaredNames_def)
  then show ?thesis
    by (simp add: SetFailureDomainsStatusMap_def Let_def SetFailureDomainsStatusMap_loop_eq)
qed

lemma SetFailureDomainsStatusMap_fst: "fst (SetFailureDomainsStatusMap r) = Continue"
  by (simp add: SetFailureDomainsStatusMap_eq)

lemma SetFailureDomainsStatusMap_keeps:
  "ObjectMeta (ReconciliationSubject (snd (SetFailureDomainsStatusMap r))) = ObjectMeta (ReconciliationSubject r)"
  "Spec (ReconciliationSubject (snd (SetFailureDomainsStatusMap r))) = Spec (ReconciliationSubject r)"
  "Status_Ready (Status (ReconciliationSubject (snd (SetFailureDomainsStatusMap r))))
     = Status_Ready (Status (ReconciliationSubject r))"
  "FailureDomains (snd (SetFailureDomainsStatusMap r)) = FailureDomains r"
  "K8sClient (snd (SetFailureDomainsStatusMap r)) = K8sClient r"
  "CAPICluster (snd (SetFailureDomainsStatusMap r)) = CAPICluster r"
  by (simp_all add: SetFailureDomainsStatusMap_eq)

subsection \<open>The pipeline\<close>

lemma RunReconciliationStages_Cons:
  "RunReconciliationStages (fn # fns) r =
     (if fst (fn r) = Continue then RunReconciliationStages fns (snd (fn r)) else fn r)"
  by (cases "fn r") (auto split: result.splits)

lemma CreateFailureDomains_keeps:
  "ReconciliationSubject (snd (CreateFailureDomains env fdSpecs r)) = ReconciliationSubject r"
  "FailureDomains (snd (CreateFailureDomains env fdSpecs r)) = FailureDomains r"
  by (simp_all add: CreateFailureDomains_def split: prod.splits)

lemma GetFailureDomains_keeps:
  "ReconciliationSubject (snd (GetFailureDomains env r)) = ReconciliationSubject r"
  "K8sClient (snd (GetFailureDomains env r)) = K8sClient r"
  by (simp_all add: GetFailureDomains_def split: prod.splits)

lemma SetReady_eq:
  "fst (SetReady env r) = Continue"
  "Status_Ready (Status (ReconciliationSubject (snd (SetReady env r))))"
  "ClusterFinalizer env \<in> set (Finalizers (ObjectMeta (ReconciliationSubject (snd (SetReady env r)))))"
  "Spec (ReconciliationSubject (snd (SetReady env r))) = Spec (ReconciliationSubject r)"
  "FailureDomains (snd (SetReady env r)) = FailureDomains r"
  by (simp_all add: SetReady_def AddFinalizer_def Let_def)

lemma Reconcile_cases:
  assumes run: "Reconcile env r = (res, r')"
  obtains
    (stopped) "res \<noteq> Continue"
      "ObjectMeta (ReconciliationSubject r') = ObjectMeta (ReconciliationSubject r)"
      "Status_Ready (Status (ReconciliationSubject r')) = Status_Ready (Status (ReconciliationSubject r))"
      "Spec (ReconciliationSubject r') = Spec (ReconciliationSubject r)"
  | (completed) r3 where "res = Continue"
      "fst (VerifyFailureDomainCRDs r3) = Continue"
      "r' = snd (SetReady env r3)"
      "Spec (ReconciliationSubject r3) = Spec (ReconciliationSubject r)"
proof -
  define r1 where "r1 = snd (SetFailureDomainsStatusMap r)"
  define r2 where "r2 = snd (CreateFailureDomains env (Spec_FailureDomains (Spec (ReconciliationSubject r))) r1)"
  define r3 where "r3 = snd (GetFailureDomains env r2)"
  have s1: "ReconciliationSubject r2 = ReconciliationSubject r1"
    by (simp add: r2_def CreateFailureDomains_keeps)
  have s2: "ReconciliationSubject r3 = ReconciliationSubject r1"
    by (simp add: r3_def GetFailureDomains_keeps s1)
  have k1: "ObjectMeta (ReconciliationSubject r1) = ObjectMeta (ReconciliationSubject r)"
    "Spec (ReconciliationSubject r1) = Spec (ReconciliationSubject r)"
    "Status_Ready (Status (ReconciliationSubject r1)) = Status_Ready (Status (ReconciliationSubject r))"
    by (simp_all add: r1_def SetFailureDomainsStatusMap_keeps)
  have unfolded: "Reconcile env r =
    (if fst (CreateFailureDomains env (Spec_FailureDomains (Spec (ReconciliationSubject r))) r1) \<noteq> Continue
     then CreateFailureDomains env (Spec_FailureDomains (Spec (ReconciliationSubject r))) r1
     else if fst (GetFailureDomains env r2) \<noteq> Continue then GetFailureDomains env r2
     else if fst (VerifyFailureDomainCRDs r3) \<noteq> Continue then VerifyFailureDomainCRDs r3
     else SetReady env r3)"
    by (simp add: Reconcile_def RunReconciliationStages_Cons SetFailureDomainsStatusMap_fst
        VerifyFailureDomainCRDs_snd r1_def r2_def r3_def SetReady_eq(1) prod_eq_iff
        del: RunReconciliationStages.simps(2))
  consider
    (a) "fst (CreateFailureDomains env (Spec_FailureDomains (Spec (ReconciliationSubject r))) r1) \<noteq> Continue"
  | (b) "fst (CreateFailureDomains env (Spec_FailureDomains (Spec (ReconciliationSubject r))) r1) = Continue"
        "fst (GetFailureDomains env r2) \<noteq> Continue"
  | (c) "fst (CreateFailureDomains env (Spec_FailureDomains (Spec (ReconciliationSubject r))) r1) = Continue"
        "fst (GetFailureDomains env r2) = Continue" "fst (VerifyFailureDomainCRDs r3) \<noteq> Continue"
  | (d) "fst (CreateFailureDomains env (Spec_FailureDomains (Spec (ReconciliationSubject r))) r1) = Continue"
        "fst (GetFailureDomains env r2) = Continue" "fst (VerifyFailureDomainCRDs r3) = Continue"
    by blast
  then show thesis
  proof cases
    case a
    with run unfolded have "res \<noteq> Continue" "r' = r2"
      by (auto simp: r2_def)
    with s1 k1 show thesis by (intro stopped) simp_all
  next
    case b
    with run unfolded have "res \<noteq> Continue" "r' = r3"
      by (auto simp: r3_def)
    with s2 k1 show thesis by (intro stopped) simp_all
  next
    case c
    with run unfolded have "res \<noteq> Continue" "r' = r3"
      using VerifyFailureDomainCRDs_snd [of r3] by auto
    with s2 k1 show thesis by (intro stopped) simp_all
  next
    case d
    with run unfolded have "res = Continue" "r' = snd (SetReady env r3)"
      using SetReady_eq(1) [of env r3] by auto
    with d s2 k1 show thesis by (intro completed [of r3]) simp_all
  qed
qed




subsection \<open>Deletion\<close>

lemma ReconcileDelete_loop_all_succeed:
  assumes "\<forall>pre fd post. fds = pre @ fd # post \<longrightarrow>
             fst (Delete_op env (foldl (\<lambda>s x. snd (Delete_op env s x)) store pre) fd) = None"
  shows "ReconcileDelete_loop env fds store =
           (None, foldl (\<lambda>s x. snd (Delete_op env s x)) store fds)"
  using assms
proof (induction fds arbitrary: store)
  case Nil
  then show ?case by simp
next
  case (Cons a fds)
  from Cons.prems have first: "fst (Delete_op env store a) = None"
    by (metis append_Nil foldl_Nil)
  have rest: "\<forall>pre fd post. fds = pre @ fd # post \<longrightarrow>
      fst (Delete_op env (foldl (\<lambda>s x. snd (Delete_op env s x)) (snd (Delete_op env store a)) pre) fd) = None"
  proof (intro allI impI)
    fix pre fd post
    assume "fds = pre @ fd # post"
    then have "a # fds = (a # pre) @ fd # post" by simp
    with Cons.prems
    have "fst (Delete_op env (foldl (\<lambda>s x. snd (Delete_op env s x)) store (a # pre)) fd) = None"
      by blast
    then show "fst (Delete_op env (foldl (\<lambda>s x. snd (Delete_op env s x)) (snd (Delete_op env store a)) pre) fd) = None"
      by simp
  qed
  from Cons.IH [OF rest] first show ?case
    by (cases "Delete_op env store a") simp
qed

lemma ReconcileDelete_loop_first_failure:
  assumes "\<forall>p x q. pre = p @ x # q \<longrightarrow>
             fst (Delete_op env (foldl (\<lambda>s x. snd (Delete_op env s x)) store p) x) = None"
      and "Delete_op env (foldl (\<lambda>s x. snd (Delete_op env s x)) store pre) fd = (Some err, store')"
  shows "ReconcileDelete_loop env (pre @ fd # post) store = (Some err, store')"
  using assms
proof (induction pre arbitrary: store)
  case Nil
  then show ?case by simp
next
  case (Cons a pre)
  from Cons.prems(1) have first: "fst (Delete_op env store a) = None"
    by (metis append_Nil foldl_Nil)
  have rest: "\<forall>p x q. pre = p @ x # q \<longrightarrow>
      fst (Delete_op env (foldl (\<lambda>s x. snd (Delete_op env s x)) (snd (Delete_op env store a)) p) x) = None"
  proof (intro allI impI)
    fix p x q
    assume "pre = p @ x # q"
    then have "a # pre = (a # p) @ x # q" by simp
    with Cons.prems(1)
    have "fst (Delete_op env (foldl (\<lambda>s x. snd (Delete_op env s x)) store (a # p)) x) = None"
      by blast
    then show "fst (Delete_op env (foldl (\<lambda>s x. snd (Delete_op env s x)) (snd (Delete_op env store a)) p) x) = None"
      by simp
  qed
  from Cons.prems(2)
  have "Delete_op env (foldl (\<lambda>s x. snd (Delete_op env s x)) (snd (Delete_op env store a)) pre) fd = (Some err, store')"
    by simp
  from Cons.IH [OF rest this] first show ?case
    by (cases "Delete_op env store a") simp
qed

lemma ReconcileDelete_eq:
  "ReconcileDelete env r =
     (let res = fst (GetFailureDomains_op env r);
          items = snd (GetFailureDomains_op env r);
          r1 = r\<lparr>FailureDomains := items\<rparr>
      in if res \<noteq> Continue then (res, r1)
         else if items \<noteq> [] then
           (case ReconcileDelete_loop env items (K8sClient r) of
              (Some err, store) \<Rightarrow> (Error err, r1\<lparr>K8sClient := store\<rparr>)
            | (None, store) \<Rightarrow>
                (Requeue ''Child FailureDomains still present, requeueing.'', r1\<lparr>K8sClient := store\<rparr>))
         else (Continue,
               r1\<lparr>ReconciliationSubject :=
                    RemoveFinalizer (ReconciliationSubject r) (ClusterFinalizer env)\<rparr>))"
  by (cases "GetFailureDomains_op env r"; cases "fst (GetFailureDomains_op env r)")
     (auto simp: ReconcileDelete_def GetFailureDomains_def RequeueWithMessage_def Let_def
           split: prod.splits option.splits)

lemma ReconcileDelete_subject:
  "ReconciliationSubject (snd (ReconcileDelete env r)) =
     (if GetFailureDomains_op env r = (Continue, [])
      then RemoveFinalizer (ReconciliationSubject r) (ClusterFinalizer env)
      else ReconciliationSubject r)"
  by (cases "GetFailureDomains_op env r")
     (auto simp: ReconcileDelete_eq Let_def split: prod.splits option.splits)

lemma ReconcileDelete_fst_Continue:
  "fst (ReconcileDelete env r) = Continue \<longleftrightarrow> GetFailureDomains_op env r = (Continue, [])"
  by (cases "GetFailureDomains_op env r")
     (auto simp: ReconcileDelete_eq Let_def split: prod.splits option.splits)

subsection \<open>The update filter\<close>


section \<open>The claims\<close>

subsection \<open>C1: readiness is set only after verification\<close>




subsection \<open>C2: the finalizer outlives the dependents\<close>

text \<open>
  Claim C2: for every deletion-mode reconciliation, the finalizer marker is removed from
  the Subject only on the path where the fetch of dependent resources returned an empty
  set; it is never removed in an invocation in which any dependent resource is still
  observable. Stated for every store and every answer of the fetch: if the list of
  finalizers changed at all, the fetch continued with no item and the step succeeded; a
  finalizer that is gone is the cluster finalizer; and when the fetch reported an item,
  or did not continue, the Subject is untouched and the result is not success.
\<close>

theorem ReconcileDelete_finalizer_safety:
  assumes run: "ReconcileDelete env r = (res, r')"
  shows
  "(Finalizers (ObjectMeta (ReconciliationSubject r')) \<noteq> Finalizers (ObjectMeta (ReconciliationSubject r))
      \<longrightarrow> GetFailureDomains_op env r = (Continue, []) \<and> res = Continue)
   \<and> (\<forall>f. f \<in> set (Finalizers (ObjectMeta (ReconciliationSubject r)))
          \<and> f \<notin> set (Finalizers (ObjectMeta (ReconciliationSubject r')))
      \<longrightarrow> GetFailureDomains_op env r = (Continue, []) \<and> f = ClusterFinalizer env)
   \<and> (snd (GetFailureDomains_op env r) \<noteq> []
      \<longrightarrow> ReconciliationSubject r' = ReconciliationSubject r \<and> res \<noteq> Continue)
   \<and> (fst (GetFailureDomains_op env r) \<noteq> Continue
      \<longrightarrow> ReconciliationSubject r' = ReconciliationSubject r \<and> res \<noteq> Continue)"
proof -
  from run have r': "r' = snd (ReconcileDelete env r)" and res: "res = fst (ReconcileDelete env r)"
    by simp_all
  have subj: "ReconciliationSubject r' =
     (if GetFailureDomains_op env r = (Continue, [])
      then RemoveFinalizer (ReconciliationSubject r) (ClusterFinalizer env)
      else ReconciliationSubject r)"
    unfolding r' by (rule ReconcileDelete_subject)
  have cont: "res = Continue \<longleftrightarrow> GetFailureDomains_op env r = (Continue, [])"
    unfolding res by (rule ReconcileDelete_fst_Continue)
  have a: "Finalizers (ObjectMeta (ReconciliationSubject r')) \<noteq> Finalizers (ObjectMeta (ReconciliationSubject r))
      \<longrightarrow> GetFailureDomains_op env r = (Continue, []) \<and> res = Continue"
    using subj cont by (auto split: if_splits)
  have b: "\<forall>f. f \<in> set (Finalizers (ObjectMeta (ReconciliationSubject r)))
          \<and> f \<notin> set (Finalizers (ObjectMeta (ReconciliationSubject r')))
      \<longrightarrow> GetFailureDomains_op env r = (Continue, []) \<and> f = ClusterFinalizer env"
    using subj by (auto simp: RemoveFinalizer_def split: if_splits)
  have c: "snd (GetFailureDomains_op env r) \<noteq> []
      \<longrightarrow> ReconciliationSubject r' = ReconciliationSubject r \<and> res \<noteq> Continue"
    using subj cont by auto
  have d: "fst (GetFailureDomains_op env r) \<noteq> Continue
      \<longrightarrow> ReconciliationSubject r' = ReconciliationSubject r \<and> res \<noteq> Continue"
    using subj cont by auto
  from a b c d show ?thesis by blast
qed

text \<open>
  The claim on the in-memory store: with one dependent left the finalizers stay, with
  none left the cluster finalizer goes and the other finalizer stays.
\<close>

theorem ReconcileDelete_finalizer_safety_witness:
  "Finalizers (ObjectMeta (ReconciliationSubject
      (snd (ReconcileDelete (memStore []) (deletingRunner [demoFailureDomain ''pool1-demo'' True])))))
     = [''other.finalizer'', ''capc.cluster.x-k8s.io'']
   \<and> fst (ReconcileDelete (memStore []) (deletingRunner [demoFailureDomain ''pool1-demo'' True]))
     = Requeue ''Child FailureDomains still present, requeueing.''
   \<and> Finalizers (ObjectMeta (ReconciliationSubject
      (snd (ReconcileDelete (memStore []) (deletingRunner [])))))
     = [''other.finalizer'']
   \<and> GetFailureDomains_op (memStore []) (deletingRunner []) = (Continue, [])"
proof -
  have run1: "ReconcileDelete (memStore []) (deletingRunner [demoFailureDomain ''pool1-demo'' True])
      = (fst (ReconcileDelete (memStore []) (deletingRunner [demoFailureDomain ''pool1-demo'' True])),
         snd (ReconcileDelete (memStore []) (deletingRunner [demoFailureDomain ''pool1-demo'' True])))"
    by simp
  have run2: "ReconcileDelete (memStore []) (deletingRunner [])
      = (fst (ReconcileDelete (memStore []) (deletingRunner [])),
         snd (ReconcileDelete (memStore []) (deletingRunner [])))"
    by simp
  have observable: "snd (GetFailureDomains_op (memStore [])
      (deletingRunner [demoFailureDomain ''pool1-demo'' True])) \<noteq> []"
    by (simp add: demo_defs)
  have changed: "Finalizers (ObjectMeta (ReconciliationSubject
      (snd (ReconcileDelete (memStore []) (deletingRunner [])))))
     \<noteq> Finalizers (ObjectMeta (ReconciliationSubject (deletingRunner [])))"
    by (simp add: demo_defs stage_defs)
  have kept: "ReconciliationSubject
      (snd (ReconcileDelete (memStore []) (deletingRunner [demoFailureDomain ''pool1-demo'' True])))
     = ReconciliationSubject (deletingRunner [demoFailureDomain ''pool1-demo'' True])"
    using ReconcileDelete_finalizer_safety [OF run1] observable by blast
  have fetched: "GetFailureDomains_op (memStore []) (deletingRunner []) = (Continue, [])"
    using ReconcileDelete_finalizer_safety [OF run2] changed by blast
  have a: "Finalizers (ObjectMeta (ReconciliationSubject
      (snd (ReconcileDelete (memStore []) (deletingRunner [demoFailureDomain ''pool1-demo'' True])))))
     = [''other.finalizer'', ''capc.cluster.x-k8s.io'']"
    unfolding kept by (simp add: demo_defs)
  have b: "fst (ReconcileDelete (memStore []) (deletingRunner [demoFailureDomain ''pool1-demo'' True]))
     = Requeue ''Child FailureDomains still present, requeueing.''"
    by (simp add: demo_defs stage_defs)
  have c: "Finalizers (ObjectMeta (ReconciliationSubject
      (snd (ReconcileDelete (memStore []) (deletingRunner [])))))
     = [''other.finalizer'']"
    by (simp add: demo_defs stage_defs)
  from a b c fetched show ?thesis by simp
qed

subsection \<open>C3: the outcomes of the deletion step\<close>

text \<open>
  Claim C3: in deletion mode, if the fetched dependent set is non-empty, the coordinator
  issues a delete request for every dependent in it (an individual delete failure aborts
  the whole step with an error) and then returns requeue; if the fetched set is empty, it
  removes the finalizer and returns success with no requeue and no error. Here \<open>after pre\<close>
  is the store after the delete requests for the items \<open>pre\<close>, in order. When every
  request succeeds, the store after the step is \<open>after items\<close>, so a request was issued
  for every item, and the result is the requeue. When the request for \<open>fd\<close> is the first
  to fail, the result is that error, and the store is as that request left it.
\<close>

theorem ReconcileDelete_outcomes:
  fixes env :: "('o, 's) Collaborators"
  assumes fetch: "GetFailureDomains_op env r = (Continue, items)"
  defines "after \<equiv> foldl (\<lambda>s x. snd (Delete_op env s x)) (K8sClient r)"
  shows
  "(items \<noteq> [] \<and> (\<forall>pre fd post. items = pre @ fd # post \<longrightarrow> fst (Delete_op env (after pre) fd) = None)
      \<longrightarrow> ReconcileDelete env r =
            (Requeue ''Child FailureDomains still present, requeueing.'',
             r\<lparr>FailureDomains := items, K8sClient := after items\<rparr>))
   \<and> (\<forall>pre fd post err store.
        items = pre @ fd # post
        \<and> (\<forall>p x q. pre = p @ x # q \<longrightarrow> fst (Delete_op env (after p) x) = None)
        \<and> Delete_op env (after pre) fd = (Some err, store)
      \<longrightarrow> ReconcileDelete env r = (Error err, r\<lparr>FailureDomains := items, K8sClient := store\<rparr>))
   \<and> (items = []
      \<longrightarrow> ReconcileDelete env r =
            (Continue,
             r\<lparr>FailureDomains := [],
               ReconciliationSubject := RemoveFinalizer (ReconciliationSubject r) (ClusterFinalizer env)\<rparr>)
          \<and> ClusterFinalizer env \<notin>
              set (Finalizers (ObjectMeta (ReconciliationSubject (snd (ReconcileDelete env r))))))"
proof -
  have ok: "items \<noteq> [] \<and> (\<forall>pre fd post. items = pre @ fd # post \<longrightarrow> fst (Delete_op env (after pre) fd) = None)
      \<longrightarrow> ReconcileDelete env r =
            (Requeue ''Child FailureDomains still present, requeueing.'',
             r\<lparr>FailureDomains := items, K8sClient := after items\<rparr>)"
  proof
    assume h: "items \<noteq> [] \<and> (\<forall>pre fd post. items = pre @ fd # post \<longrightarrow> fst (Delete_op env (after pre) fd) = None)"
    then have "ReconcileDelete_loop env items (K8sClient r) = (None, after items)"
      unfolding after_def by (intro ReconcileDelete_loop_all_succeed) simp
    with h fetch show "ReconcileDelete env r =
            (Requeue ''Child FailureDomains still present, requeueing.'',
             r\<lparr>FailureDomains := items, K8sClient := after items\<rparr>)"
      by (simp add: ReconcileDelete_eq)
  qed
  have failed: "\<forall>pre fd post err store.
        items = pre @ fd # post
        \<and> (\<forall>p x q. pre = p @ x # q \<longrightarrow> fst (Delete_op env (after p) x) = None)
        \<and> Delete_op env (after pre) fd = (Some err, store)
      \<longrightarrow> ReconcileDelete env r = (Error err, r\<lparr>FailureDomains := items, K8sClient := store\<rparr>)"
  proof (intro allI impI)
    fix pre fd post err store
    assume h: "items = pre @ fd # post
        \<and> (\<forall>p x q. pre = p @ x # q \<longrightarrow> fst (Delete_op env (after p) x) = None)
        \<and> Delete_op env (after pre) fd = (Some err, store)"
    then have "ReconcileDelete_loop env (pre @ fd # post) (K8sClient r) = (Some err, store)"
      unfolding after_def by (intro ReconcileDelete_loop_first_failure) simp_all
    with h fetch show "ReconcileDelete env r = (Error err, r\<lparr>FailureDomains := items, K8sClient := store\<rparr>)"
      by (simp add: ReconcileDelete_eq)
  qed
  have none: "items = []
      \<longrightarrow> ReconcileDelete env r =
            (Continue,
             r\<lparr>FailureDomains := [],
               ReconciliationSubject := RemoveFinalizer (ReconciliationSubject r) (ClusterFinalizer env)\<rparr>)
          \<and> ClusterFinalizer env \<notin>
              set (Finalizers (ObjectMeta (ReconciliationSubject (snd (ReconcileDelete env r)))))"
    using fetch by (simp add: ReconcileDelete_eq RemoveFinalizer_def)
  from ok failed none show ?thesis by blast
qed

text \<open>
  The three outcomes on the in-memory store, which logs the delete requests: all three
  requests issued, then requeue; the second request refused, so an error after two
  requests; nothing fetched, so success and the finalizer removed.
\<close>

theorem ReconcileDelete_outcomes_witness:
  "fst (ReconcileDelete (memStore [])
          (deletingRunner [demoFailureDomain ''a'' True, demoFailureDomain ''b'' False,
                           demoFailureDomain ''c'' True]))
     = Requeue ''Child FailureDomains still present, requeueing.''
   \<and> deleteRequests (K8sClient (snd (ReconcileDelete (memStore [])
          (deletingRunner [demoFailureDomain ''a'' True, demoFailureDomain ''b'' False,
                           demoFailureDomain ''c'' True]))))
     = [demoFailureDomain ''a'' True, demoFailureDomain ''b'' False, demoFailureDomain ''c'' True]
   \<and> fst (ReconcileDelete (memStore [''b''])
          (deletingRunner [demoFailureDomain ''a'' True, demoFailureDomain ''b'' False,
                           demoFailureDomain ''c'' True]))
     = Error ''delete refused''
   \<and> deleteRequests (K8sClient (snd (ReconcileDelete (memStore [''b''])
          (deletingRunner [demoFailureDomain ''a'' True, demoFailureDomain ''b'' False,
                           demoFailureDomain ''c'' True]))))
     = [demoFailureDomain ''a'' True, demoFailureDomain ''b'' False]
   \<and> fst (ReconcileDelete (memStore []) (deletingRunner [])) = Continue
   \<and> Finalizers (ObjectMeta (ReconciliationSubject
        (snd (ReconcileDelete (memStore []) (deletingRunner []))))) = [''other.finalizer'']"
proof -
  have fetch3: "GetFailureDomains_op (memStore [])
      (deletingRunner [demoFailureDomain ''a'' True, demoFailureDomain ''b'' False,
                       demoFailureDomain ''c'' True])
     = (Continue, [demoFailureDomain ''a'' True, demoFailureDomain ''b'' False,
                   demoFailureDomain ''c'' True])"
    by (simp add: demo_defs)
  have fetch0: "GetFailureDomains_op (memStore []) (deletingRunner []) = (Continue, [])"
    by (simp add: demo_defs)
  have succeed: "\<forall>pre fd post.
      [demoFailureDomain ''a'' True, demoFailureDomain ''b'' False, demoFailureDomain ''c'' True]
        = pre @ fd # post \<longrightarrow>
      fst (Delete_op (memStore [])
            (foldl (\<lambda>s x. snd (Delete_op (memStore []) s x))
               (K8sClient (deletingRunner [demoFailureDomain ''a'' True,
                  demoFailureDomain ''b'' False, demoFailureDomain ''c'' True])) pre) fd) = None"
    by (simp add: memStore_def)
  have nonempty: "[demoFailureDomain ''a'' True, demoFailureDomain ''b'' False,
                   demoFailureDomain ''c'' True] \<noteq> []"
    by simp
  from ReconcileDelete_outcomes [OF fetch3]
  have imp: "[demoFailureDomain ''a'' True, demoFailureDomain ''b'' False,
         demoFailureDomain ''c'' True] \<noteq> []
      \<and> (\<forall>pre fd post.
      [demoFailureDomain ''a'' True, demoFailureDomain ''b'' False, demoFailureDomain ''c'' True]
        = pre @ fd # post \<longrightarrow>
      fst (Delete_op (memStore [])
            (foldl (\<lambda>s x. snd (Delete_op (memStore []) s x))
               (K8sClient (deletingRunner [demoFailureDomain ''a'' True,
                  demoFailureDomain ''b'' False, demoFailureDomain ''c'' True])) pre) fd) = None)
    \<longrightarrow> ReconcileDelete (memStore [])
          (deletingRunner [demoFailureDomain ''a'' True, demoFailureDomain ''b'' False,
                           demoFailureDomain ''c'' True])
     = (Requeue ''Child FailureDomains still present, requeueing.'',
        (deletingRunner [demoFailureDomain ''a'' True, demoFailureDomain ''b'' False,
                         demoFailureDomain ''c'' True])
          \<lparr>FailureDomains := [demoFailureDomain ''a'' True, demoFailureDomain ''b'' False,
                              demoFailureDomain ''c'' True],
           K8sClient := foldl (\<lambda>s x. snd (Delete_op (memStore []) s x))
               (K8sClient (deletingRunner [demoFailureDomain ''a'' True,
                  demoFailureDomain ''b'' False, demoFailureDomain ''c'' True]))
               [demoFailureDomain ''a'' True, demoFailureDomain ''b'' False,
                demoFailureDomain ''c'' True]\<rparr>)"
    by (rule conjunct1)
  have requeued: "ReconcileDelete (memStore [])
          (deletingRunner [demoFailureDomain ''a'' True, demoFailureDomain ''b'' False,
                           demoFailureDomain ''c'' True])
     = (Requeue ''Child FailureDomains still present, requeueing.'',
        (deletingRunner [demoFailureDomain ''a'' True, demoFailureDomain ''b'' False,
                         demoFailureDomain ''c'' True])
          \<lparr>FailureDomains := [demoFailureDomain ''a'' True, demoFailureDomain ''b'' False,
                              demoFailureDomain ''c'' True],
           K8sClient := foldl (\<lambda>s x. snd (Delete_op (memStore []) s x))
               (K8sClient (deletingRunner [demoFailureDomain ''a'' True,
                  demoFailureDomain ''b'' False, demoFailureDomain ''c'' True]))
               [demoFailureDomain ''a'' True, demoFailureDomain ''b'' False,
                demoFailureDomain ''c'' True]\<rparr>)"
    by (rule mp [OF imp conjI [OF nonempty succeed]])
  have a: "fst (ReconcileDelete (memStore [])
          (deletingRunner [demoFailureDomain ''a'' True, demoFailureDomain ''b'' False,
                           demoFailureDomain ''c'' True]))
     = Requeue ''Child FailureDomains still present, requeueing.''"
    unfolding requeued by simp
  have b: "deleteRequests (K8sClient (snd (ReconcileDelete (memStore [])
          (deletingRunner [demoFailureDomain ''a'' True, demoFailureDomain ''b'' False,
                           demoFailureDomain ''c'' True]))))
     = [demoFailureDomain ''a'' True, demoFailureDomain ''b'' False, demoFailureDomain ''c'' True]"
    unfolding requeued by (simp add: demo_defs)
  have c: "fst (ReconcileDelete (memStore [''b''])
          (deletingRunner [demoFailureDomain ''a'' True, demoFailureDomain ''b'' False,
                           demoFailureDomain ''c'' True]))
     = Error ''delete refused''"
    by (simp add: demo_defs stage_defs)
  have d: "deleteRequests (K8sClient (snd (ReconcileDelete (memStore [''b''])
          (deletingRunner [demoFailureDomain ''a'' True, demoFailureDomain ''b'' False,
                           demoFailureDomain ''c'' True]))))
     = [demoFailureDomain ''a'' True, demoFailureDomain ''b'' False]"
    by (simp add: demo_defs stage_defs)
  have e: "fst (ReconcileDelete (memStore []) (deletingRunner [])) = Continue
   \<and> Finalizers (ObjectMeta (ReconciliationSubject
        (snd (ReconcileDelete (memStore []) (deletingRunner []))))) = [''other.finalizer'']"
  proof -
    from ReconcileDelete_outcomes [OF fetch0]
    have "ReconcileDelete (memStore []) (deletingRunner [])
        = (Continue,
           (deletingRunner [])\<lparr>FailureDomains := [],
             ReconciliationSubject :=
               RemoveFinalizer (ReconciliationSubject (deletingRunner []))
                 (ClusterFinalizer (memStore []))\<rparr>)"
      by blast
    then show ?thesis by (simp add: demo_defs RemoveFinalizer_def)
  qed
  from a b c d e show ?thesis by simp
qed

subsection \<open>C4: the outcomes of the verification stage\<close>



subsection \<open>C5: name normalization\<close>

text \<open>
  Claim C5: for every FailureDomainSpec name \<open>N\<close> and owning cluster name \<open>C\<close>,
  normalization yields \<open>N + "-" + C\<close> when \<open>N\<close> does not already end with \<open>"-" + C\<close>, and
  yields \<open>N\<close> unchanged when it does; normalization is idempotent; \<open>pool1\<close> of owner \<open>demo\<close>
  becomes \<open>pool1-demo\<close>, and \<open>pool1-demo\<close> of owner \<open>demo\<close> stays \<open>pool1-demo\<close>. To end
  with a suffix is stated without the library function: some prefix precedes it.
\<close>

theorem addClusterNameSuffix_normalizes:
  "fdSpec_Name (addClusterNameSuffix c fd) =
     (if \<exists>p. fdSpec_Name fd = p @ ''-'' @ c then fdSpec_Name fd
      else fdSpec_Name fd @ ''-'' @ c)
   \<and> fdSpec_Other (addClusterNameSuffix c fd) = fdSpec_Other fd
   \<and> addClusterNameSuffix c (addClusterNameSuffix c fd) = addClusterNameSuffix c fd
   \<and> fdSpec_Name (addClusterNameSuffix ''demo'' \<lparr>fdSpec_Name = ''pool1'', fdSpec_Other = x\<rparr>)
       = ''pool1-demo''
   \<and> fdSpec_Name (addClusterNameSuffix ''demo'' \<lparr>fdSpec_Name = ''pool1-demo'', fdSpec_Other = x\<rparr>)
       = ''pool1-demo''"
proof -
  have name: "fdSpec_Name (addClusterNameSuffix c fd) =
     (if \<exists>p. fdSpec_Name fd = p @ ''-'' @ c then fdSpec_Name fd
      else fdSpec_Name fd @ ''-'' @ c)"
    unfolding addClusterNameSuffix_Name HasSuffix_iff by simp
  have other: "fdSpec_Other (addClusterNameSuffix c fd) = fdSpec_Other fd"
    by (simp add: addClusterNameSuffix_def)
  have idem: "addClusterNameSuffix c (addClusterNameSuffix c fd) = addClusterNameSuffix c fd"
    using addClusterNameSuffix_HasSuffix [of c fd]
    by (simp add: addClusterNameSuffix_def [of c "addClusterNameSuffix c fd"])
  have ex1: "fdSpec_Name (addClusterNameSuffix ''demo'' \<lparr>fdSpec_Name = ''pool1'', fdSpec_Other = x\<rparr>)
       = ''pool1-demo''"
    by (simp add: addClusterNameSuffix_def HasSuffix_def)
  have ex2: "fdSpec_Name (addClusterNameSuffix ''demo'' \<lparr>fdSpec_Name = ''pool1-demo'', fdSpec_Other = x\<rparr>)
       = ''pool1-demo''"
    by (simp add: addClusterNameSuffix_def HasSuffix_def)
  from name other idem ex1 ex2 show ?thesis by blast
qed

text \<open>The two examples again, the second one through idempotence.\<close>

theorem addClusterNameSuffix_normalizes_witness:
  "addClusterNameSuffix ''demo'' \<lparr>fdSpec_Name = ''pool1'', fdSpec_Other = ()\<rparr>
     = \<lparr>fdSpec_Name = ''pool1-demo'', fdSpec_Other = ()\<rparr>
   \<and> addClusterNameSuffix ''demo'' \<lparr>fdSpec_Name = ''pool1-demo'', fdSpec_Other = ()\<rparr>
     = \<lparr>fdSpec_Name = ''pool1-demo'', fdSpec_Other = ()\<rparr>"
proof -
  have first: "addClusterNameSuffix ''demo'' \<lparr>fdSpec_Name = ''pool1'', fdSpec_Other = ()\<rparr>
     = \<lparr>fdSpec_Name = ''pool1-demo'', fdSpec_Other = ()\<rparr>"
    by (simp add: addClusterNameSuffix_def HasSuffix_def)
  from addClusterNameSuffix_normalizes [of "''demo''" "\<lparr>fdSpec_Name = ''pool1'', fdSpec_Other = ()\<rparr>" "()"]
  have "addClusterNameSuffix ''demo''
          (addClusterNameSuffix ''demo'' \<lparr>fdSpec_Name = ''pool1'', fdSpec_Other = ()\<rparr>)
        = addClusterNameSuffix ''demo'' \<lparr>fdSpec_Name = ''pool1'', fdSpec_Other = ()\<rparr>"
    by blast
  with first show ?thesis by simp
qed

subsection \<open>C6: the status map is a projection of the spec\<close>

text \<open>
  Claim C6: for every Subject and every prior content of \<open>Status.FailureDomains\<close>,
  \<open>SetFailureDomainsStatusMap\<close> replaces the status map entirely with one entry per
  declared FailureDomainSpec, keyed by the normalized name and marked
  \<open>ControlPlane = true\<close>; the result depends only on the spec and the owner cluster name,
  never on prior status content, and the step always continues with no error. The keys
  of the new map are exactly the normalized declared names; they are as many as the
  declared specs when those names are distinct.
\<close>

theorem SetFailureDomainsStatusMap_projection:
  fixes r :: "('o, 's) CloudStackClusterReconciliationRunner"
  defines "names \<equiv> spec_declaredNames (Cluster_Name (CAPICluster r))
                      (Spec_FailureDomains (Spec (ReconciliationSubject r)))"
      and "after \<equiv> Status_FailureDomains (Status (ReconciliationSubject (snd (SetFailureDomainsStatusMap r))))"
  shows
  "fst (SetFailureDomainsStatusMap r) = Continue
   \<and> (\<forall>k. after k = (if k \<in> set names then Some \<lparr>ControlPlane = True, Attributes = []\<rparr> else None))
   \<and> dom after = set names
   \<and> (distinct names \<longrightarrow> card (dom after) = length (Spec_FailureDomains (Spec (ReconciliationSubject r))))
   \<and> (\<forall>r2 :: ('o, 's) CloudStackClusterReconciliationRunner.
        Spec_FailureDomains (Spec (ReconciliationSubject r2)) = Spec_FailureDomains (Spec (ReconciliationSubject r))
        \<and> Cluster_Name (CAPICluster r2) = Cluster_Name (CAPICluster r)
        \<longrightarrow> Status_FailureDomains (Status (ReconciliationSubject (snd (SetFailureDomainsStatusMap r2)))) = after)"
proof -
  have c: "fst (SetFailureDomainsStatusMap r) = Continue"
    by (simp add: SetFailureDomainsStatusMap_eq)
  have m: "after = (\<lambda>k. if k \<in> set names then Some \<lparr>ControlPlane = True, Attributes = []\<rparr> else None)"
    by (simp add: after_def names_def SetFailureDomainsStatusMap_eq)
  then have d: "dom after = set names"
    by (auto simp: dom_def)
  have n: "distinct names \<longrightarrow> card (dom after) = length (Spec_FailureDomains (Spec (ReconciliationSubject r)))"
  proof
    assume "distinct names"
    then have "card (set names) = length names" by (rule distinct_card)
    moreover have "length names = length (Spec_FailureDomains (Spec (ReconciliationSubject r)))"
      by (simp add: names_def spec_declaredNames_def)
    ultimately show "card (dom after) = length (Spec_FailureDomains (Spec (ReconciliationSubject r)))"
      using d by simp
  qed
  have p: "\<forall>r2 :: ('o, 's) CloudStackClusterReconciliationRunner.
        Spec_FailureDomains (Spec (ReconciliationSubject r2)) = Spec_FailureDomains (Spec (ReconciliationSubject r))
        \<and> Cluster_Name (CAPICluster r2) = Cluster_Name (CAPICluster r)
        \<longrightarrow> Status_FailureDomains (Status (ReconciliationSubject (snd (SetFailureDomainsStatusMap r2)))) = after"
    by (simp add: after_def SetFailureDomainsStatusMap_eq)
  from c m d n p show ?thesis by simp
qed

text \<open>A Subject whose status map held a stale entry: the entry is gone.\<close>

theorem SetFailureDomainsStatusMap_projection_witness:
  "fst (SetFailureDomainsStatusMap
     (demoRunner
        ((demoSubject [] [''pool1''])
           \<lparr>Status := \<lparr>Status_FailureDomains =
                          [''stale'' \<mapsto> \<lparr>ControlPlane = False, Attributes = []\<rparr>],
                        Status_Ready = False\<rparr>\<rparr>) [] [])) = Continue
   \<and> Status_FailureDomains (Status (ReconciliationSubject (snd (SetFailureDomainsStatusMap
     (demoRunner
        ((demoSubject [] [''pool1''])
           \<lparr>Status := \<lparr>Status_FailureDomains =
                          [''stale'' \<mapsto> \<lparr>ControlPlane = False, Attributes = []\<rparr>],
                        Status_Ready = False\<rparr>\<rparr>) [] []))))) ''stale'' = None
   \<and> Status_FailureDomains (Status (ReconciliationSubject (snd (SetFailureDomainsStatusMap
     (demoRunner
        ((demoSubject [] [''pool1''])
           \<lparr>Status := \<lparr>Status_FailureDomains =
                          [''stale'' \<mapsto> \<lparr>ControlPlane = False, Attributes = []\<rparr>],
                        Status_Ready = False\<rparr>\<rparr>) [] []))))) ''pool1-demo''
     = Some \<lparr>ControlPlane = True, Attributes = []\<rparr>
   \<and> card (dom (Status_FailureDomains (Status (ReconciliationSubject (snd (SetFailureDomainsStatusMap
     (demoRunner
        ((demoSubject [] [''pool1''])
           \<lparr>Status := \<lparr>Status_FailureDomains =
                          [''stale'' \<mapsto> \<lparr>ControlPlane = False, Attributes = []\<rparr>],
                        Status_Ready = False\<rparr>\<rparr>) [] []))))))) = 1"
proof -
  have names: "spec_declaredNames
      (Cluster_Name (CAPICluster (demoRunner
        ((demoSubject [] [''pool1''])
           \<lparr>Status := \<lparr>Status_FailureDomains =
                          [''stale'' \<mapsto> \<lparr>ControlPlane = False, Attributes = []\<rparr>],
                        Status_Ready = False\<rparr>\<rparr>) [] [])))
      (Spec_FailureDomains (Spec (ReconciliationSubject (demoRunner
        ((demoSubject [] [''pool1''])
           \<lparr>Status := \<lparr>Status_FailureDomains =
                          [''stale'' \<mapsto> \<lparr>ControlPlane = False, Attributes = []\<rparr>],
                        Status_Ready = False\<rparr>\<rparr>) [] []))))
     = [''pool1-demo'']"
    by (simp add: spec_declaredNames_def demo_defs addClusterNameSuffix_def HasSuffix_def)
  have declared: "length (Spec_FailureDomains (Spec (ReconciliationSubject (demoRunner
        ((demoSubject [] [''pool1''])
           \<lparr>Status := \<lparr>Status_FailureDomains =
                          [''stale'' \<mapsto> \<lparr>ControlPlane = False, Attributes = []\<rparr>],
                        Status_Ready = False\<rparr>\<rparr>) [] [])))) = 1"
    by (simp add: demo_defs)
  note projection = SetFailureDomainsStatusMap_projection [of "demoRunner
        ((demoSubject [] [''pool1''])
           \<lparr>Status := \<lparr>Status_FailureDomains =
                          [''stale'' \<mapsto> \<lparr>ControlPlane = False, Attributes = []\<rparr>],
                        Status_Ready = False\<rparr>\<rparr>) [] []",
      unfolded names declared]
  from projection have a: "fst (SetFailureDomainsStatusMap (demoRunner
        ((demoSubject [] [''pool1''])
           \<lparr>Status := \<lparr>Status_FailureDomains =
                          [''stale'' \<mapsto> \<lparr>ControlPlane = False, Attributes = []\<rparr>],
                        Status_Ready = False\<rparr>\<rparr>) [] [])) = Continue"
    by (rule conjunct1)
  from projection have entries: "\<forall>k. Status_FailureDomains (Status (ReconciliationSubject
      (snd (SetFailureDomainsStatusMap (demoRunner
        ((demoSubject [] [''pool1''])
           \<lparr>Status := \<lparr>Status_FailureDomains =
                          [''stale'' \<mapsto> \<lparr>ControlPlane = False, Attributes = []\<rparr>],
                        Status_Ready = False\<rparr>\<rparr>) [] []))))) k
      = (if k \<in> set [''pool1-demo''] then Some \<lparr>ControlPlane = True, Attributes = []\<rparr> else None)"
    by (rule conjunct1 [OF conjunct2])
  from projection have "distinct [''pool1-demo''] \<longrightarrow>
      card (dom (Status_FailureDomains (Status (ReconciliationSubject
        (snd (SetFailureDomainsStatusMap (demoRunner
        ((demoSubject [] [''pool1''])
           \<lparr>Status := \<lparr>Status_FailureDomains =
                          [''stale'' \<mapsto> \<lparr>ControlPlane = False, Attributes = []\<rparr>],
                        Status_Ready = False\<rparr>\<rparr>) [] []))))))) = 1"
    by (rule conjunct1 [OF conjunct2 [OF conjunct2 [OF conjunct2]]])
  then have d: "card (dom (Status_FailureDomains (Status (ReconciliationSubject
        (snd (SetFailureDomainsStatusMap (demoRunner
        ((demoSubject [] [''pool1''])
           \<lparr>Status := \<lparr>Status_FailureDomains =
                          [''stale'' \<mapsto> \<lparr>ControlPlane = False, Attributes = []\<rparr>],
                        Status_Ready = False\<rparr>\<rparr>) [] []))))))) = 1"
    by simp
  from entries have b: "Status_FailureDomains (Status (ReconciliationSubject
      (snd (SetFailureDomainsStatusMap (demoRunner
        ((demoSubject [] [''pool1''])
           \<lparr>Status := \<lparr>Status_FailureDomains =
                          [''stale'' \<mapsto> \<lparr>ControlPlane = False, Attributes = []\<rparr>],
                        Status_Ready = False\<rparr>\<rparr>) [] []))))) ''stale'' = None"
    by simp
  from entries have c: "Status_FailureDomains (Status (ReconciliationSubject
      (snd (SetFailureDomainsStatusMap (demoRunner
        ((demoSubject [] [''pool1''])
           \<lparr>Status := \<lparr>Status_FailureDomains =
                          [''stale'' \<mapsto> \<lparr>ControlPlane = False, Attributes = []\<rparr>],
                        Status_Ready = False\<rparr>\<rparr>) [] []))))) ''pool1-demo''
      = Some \<lparr>ControlPlane = True, Attributes = []\<rparr>"
    by simp
  from a b c d show ?thesis by (intro conjI)
qed

subsection \<open>C7: the update filter on the Subject\<close>



subsection \<open>C8: the predicates of the watch on the owner\<close>

text \<open>
  Claim C8: for every pair (old, new) of owner cluster objects, the owner-watch update
  predicate returns true if and only if \<open>old.Spec.Paused\<close> is true and \<open>new.Spec.Paused\<close>
  is false (so a transition from not paused to paused returns false), and the create and
  delete predicates on the owner type always return false.
\<close>

theorem Cluster_predicates:
  "Cluster_UpdateFunc e = (Cluster_Spec_Paused (ObjectOld e) \<and> \<not> Cluster_Spec_Paused (ObjectNew e))
   \<and> Cluster_CreateFunc ce = False
   \<and> Cluster_DeleteFunc de = False"
  by (simp add: Cluster_UpdateFunc_def Cluster_CreateFunc_def Cluster_DeleteFunc_def Let_def)

text \<open>The four transitions of \<open>Paused\<close>, and a create and a delete event.\<close>

theorem Cluster_predicates_witness:
  "Cluster_UpdateFunc \<lparr>ObjectOld = demoCluster True, ObjectNew = demoCluster False\<rparr> = True
   \<and> Cluster_UpdateFunc \<lparr>ObjectOld = demoCluster False, ObjectNew = demoCluster True\<rparr> = False
   \<and> Cluster_UpdateFunc \<lparr>ObjectOld = demoCluster True, ObjectNew = demoCluster True\<rparr> = False
   \<and> Cluster_UpdateFunc \<lparr>ObjectOld = demoCluster False, ObjectNew = demoCluster False\<rparr> = False
   \<and> Cluster_CreateFunc \<lparr>CreateEvent_Object = demoCluster False\<rparr> = False
   \<and> Cluster_DeleteFunc \<lparr>DeleteEvent_Object = demoCluster False\<rparr> = False"
  using Cluster_predicates [of "\<lparr>ObjectOld = demoCluster True, ObjectNew = demoCluster False\<rparr>"
          "\<lparr>CreateEvent_Object = demoCluster False\<rparr>" "\<lparr>DeleteEvent_Object = demoCluster False\<rparr>"]
        Cluster_predicates [of "\<lparr>ObjectOld = demoCluster False, ObjectNew = demoCluster True\<rparr>"
          "\<lparr>CreateEvent_Object = demoCluster False\<rparr>" "\<lparr>DeleteEvent_Object = demoCluster False\<rparr>"]
        Cluster_predicates [of "\<lparr>ObjectOld = demoCluster True, ObjectNew = demoCluster True\<rparr>"
          "\<lparr>CreateEvent_Object = demoCluster False\<rparr>" "\<lparr>DeleteEvent_Object = demoCluster False\<rparr>"]
        Cluster_predicates [of "\<lparr>ObjectOld = demoCluster False, ObjectNew = demoCluster False\<rparr>"
          "\<lparr>CreateEvent_Object = demoCluster False\<rparr>" "\<lparr>DeleteEvent_Object = demoCluster False\<rparr>"]
  by (simp add: demoCluster_def)

subsection \<open>C9: ready implies the finalizer\<close>

text \<open>
  Claim C9: whenever the Normal pipeline reaches its final step and sets \<open>Status.Ready\<close>
  to true, the cluster finalizer is added to the Subject in the same step, which cannot
  fail; hence on every successful completion of the Normal pipeline, \<open>Status.Ready\<close> is
  true and the finalizer marker is present. The last conjunct says the same of every run
  that turns \<open>Ready\<close> from false to true: it completed, and the finalizer is present.
\<close>

theorem SetReady_adds_finalizer:
  "SetReady env r = (Continue, snd (SetReady env r))
   \<and> Status_Ready (Status (ReconciliationSubject (snd (SetReady env r))))
   \<and> ClusterFinalizer env \<in> set (Finalizers (ObjectMeta (ReconciliationSubject (snd (SetReady env r)))))
   \<and> (Reconcile env r = (Continue, r')
      \<longrightarrow> Status_Ready (Status (ReconciliationSubject r'))
          \<and> ClusterFinalizer env \<in> set (Finalizers (ObjectMeta (ReconciliationSubject r'))))
   \<and> (Reconcile env r = (res, r')
        \<and> \<not> Status_Ready (Status (ReconciliationSubject r))
        \<and> Status_Ready (Status (ReconciliationSubject r'))
      \<longrightarrow> res = Continue
          \<and> ClusterFinalizer env \<in> set (Finalizers (ObjectMeta (ReconciliationSubject r'))))"
proof -
  have a: "SetReady env r = (Continue, snd (SetReady env r))"
    using SetReady_eq(1) [of env r] by (simp add: prod_eq_iff)
  have b: "Reconcile env r = (Continue, r')
      \<longrightarrow> Status_Ready (Status (ReconciliationSubject r'))
          \<and> ClusterFinalizer env \<in> set (Finalizers (ObjectMeta (ReconciliationSubject r')))"
  proof
    assume "Reconcile env r = (Continue, r')"
    then show "Status_Ready (Status (ReconciliationSubject r'))
          \<and> ClusterFinalizer env \<in> set (Finalizers (ObjectMeta (ReconciliationSubject r')))"
      by (cases rule: Reconcile_cases) (simp_all add: SetReady_eq)
  qed
  have c: "Reconcile env r = (res, r')
        \<and> \<not> Status_Ready (Status (ReconciliationSubject r))
        \<and> Status_Ready (Status (ReconciliationSubject r'))
      \<longrightarrow> res = Continue
          \<and> ClusterFinalizer env \<in> set (Finalizers (ObjectMeta (ReconciliationSubject r')))"
  proof
    assume h: "Reconcile env r = (res, r')
        \<and> \<not> Status_Ready (Status (ReconciliationSubject r))
        \<and> Status_Ready (Status (ReconciliationSubject r'))"
    then have "Reconcile env r = (res, r')" by simp
    then show "res = Continue
          \<and> ClusterFinalizer env \<in> set (Finalizers (ObjectMeta (ReconciliationSubject r')))"
      using h by (cases rule: Reconcile_cases) (simp_all add: SetReady_eq)
  qed
  from a b c SetReady_eq(2,3) [of env r] show ?thesis by blast
qed

text \<open>A run that completes, on the in-memory store.\<close>

theorem SetReady_adds_finalizer_witness:
  "fst (Reconcile (memStore []) readyRunner) = Continue
   \<and> Status_Ready (Status (ReconciliationSubject (snd (Reconcile (memStore []) readyRunner))))
   \<and> ''capc.cluster.x-k8s.io''
       \<in> set (Finalizers (ObjectMeta (ReconciliationSubject
                (snd (Reconcile (memStore []) readyRunner)))))
   \<and> Finalizers (ObjectMeta (ReconciliationSubject readyRunner)) = []"
proof -
  have ok: "fst (Reconcile (memStore []) readyRunner) = Continue"
    by (simp add: demo_defs stage_defs)
  then have run: "Reconcile (memStore []) readyRunner
      = (Continue, snd (Reconcile (memStore []) readyRunner))"
    by (simp add: prod_eq_iff)
  have token: "ClusterFinalizer (memStore []) = ''capc.cluster.x-k8s.io''"
    by (simp add: memStore_def)
  have before: "Finalizers (ObjectMeta (ReconciliationSubject readyRunner)) = []"
    by (simp add: demo_defs)
  from SetReady_adds_finalizer
    [of "memStore []" readyRunner "snd (Reconcile (memStore []) readyRunner)" Continue]
    run ok token before
  show ?thesis by simp
qed

subsection \<open>C10: the status projection leaves the spec alone\<close>

text \<open>
  Claim C10: \<open>SetFailureDomainsStatusMap\<close> never mutates the Subject's spec: the suffix
  is appended only to a per-iteration copy of each FailureDomainSpec, so for every
  Subject, \<open>Spec.FailureDomains\<close> (every entry and its \<open>Name\<close>) is identical before and
  after the step; only \<open>Status.FailureDomains\<close> changes. The last conjunct is the frame:
  the runner after the step is the runner before it with a new status map.
\<close>

theorem SetFailureDomainsStatusMap_frame:
  "Spec (ReconciliationSubject (snd (SetFailureDomainsStatusMap r))) = Spec (ReconciliationSubject r)
   \<and> map fdSpec_Name (Spec_FailureDomains (Spec (ReconciliationSubject (snd (SetFailureDomainsStatusMap r)))))
       = map fdSpec_Name (Spec_FailureDomains (Spec (ReconciliationSubject r)))
   \<and> snd (SetFailureDomainsStatusMap r) =
       r\<lparr>ReconciliationSubject :=
           (ReconciliationSubject r)\<lparr>Status :=
             (Status (ReconciliationSubject r))\<lparr>Status_FailureDomains :=
               Status_FailureDomains (Status (ReconciliationSubject (snd (SetFailureDomainsStatusMap r))))\<rparr>\<rparr>\<rparr>"
  by (simp add: SetFailureDomainsStatusMap_eq)

text \<open>The declared name is still \<open>pool1\<close> after the step, and the status key is \<open>pool1-demo\<close>.\<close>

theorem SetFailureDomainsStatusMap_frame_witness:
  "map fdSpec_Name (Spec_FailureDomains (Spec (ReconciliationSubject
      (snd (SetFailureDomainsStatusMap readyRunner))))) = [''pool1'']
   \<and> Status_FailureDomains (Status (ReconciliationSubject
      (snd (SetFailureDomainsStatusMap readyRunner)))) ''pool1-demo''
     = Some \<lparr>ControlPlane = True, Attributes = []\<rparr>
   \<and> Status_FailureDomains (Status (ReconciliationSubject
      (snd (SetFailureDomainsStatusMap readyRunner)))) ''pool1'' = None"
proof -
  have before: "map fdSpec_Name (Spec_FailureDomains (Spec (ReconciliationSubject readyRunner)))
      = [''pool1'']"
    by (simp add: demo_defs)
  have status: "Status_FailureDomains (Status (ReconciliationSubject
      (snd (SetFailureDomainsStatusMap readyRunner)))) ''pool1-demo''
     = Some \<lparr>ControlPlane = True, Attributes = []\<rparr>
   \<and> Status_FailureDomains (Status (ReconciliationSubject
      (snd (SetFailureDomainsStatusMap readyRunner)))) ''pool1'' = None"
    by (simp add: demo_defs stage_defs)
  from SetFailureDomainsStatusMap_frame [of readyRunner] before status
  show ?thesis by simp
qed

end
